theory Spec2Isabelle
  imports Complex_Main "HOL-Library.AList"
begin

section \<open>Python values and dictionaries\<close>

text \<open>
  The script \<^verbatim>\<open>summarization/why_it_moves_simple.py\<close> works on JSON-like Python
  values: article dictionaries read from a cache file, summary dictionaries written back.
  A Python \<^verbatim>\<open>float\<close> is only ever compared with zero and stored, never computed with,
  so it is modelled by a real number.
\<close>

datatype pyval =
    PNone
  | PBool bool
  | PInt int
  | PFloat real
  | PStr string
  | PList "pyval list"
  | PDict "(string \<times> pyval) list"

text \<open>
  A \<^verbatim>\<open>dict\<close> keeps its keys in insertion order: an association list with distinct keys.
  \<^verbatim>\<open>d[k] = v\<close> overwrites in place or appends, which is \<^const>\<open>AList.update\<close>.
\<close>

type_synonym dict = "(string \<times> pyval) list"

text \<open>Python truthiness, as \<^verbatim>\<open>if x:\<close> and \<^verbatim>\<open>a and b\<close> test it.\<close>

fun truthy :: "pyval \<Rightarrow> bool" where
  "truthy PNone = False"
| "truthy (PBool b) = b"
| "truthy (PInt i) = (i \<noteq> 0)"
| "truthy (PFloat r) = (r \<noteq> 0)"
| "truthy (PStr s) = (s \<noteq> [])"
| "truthy (PList xs) = (xs \<noteq> [])"
| "truthy (PDict kvs) = (kvs \<noteq> [])"

text \<open>\<^verbatim>\<open>d.get(k, default)\<close>\<close>

definition dict_get :: "dict \<Rightarrow> string \<Rightarrow> pyval \<Rightarrow> pyval" where
  "dict_get d k dflt = (case map_of d k of None \<Rightarrow> dflt | Some v \<Rightarrow> v)"

text \<open>
  An exception is an instance of \<^verbatim>\<open>Exception\<close>, known by the text \<^verbatim>\<open>str(e)\<close> gives; these
  are the exceptions \<^verbatim>\<open>except Exception\<close> catches. \<^verbatim>\<open>KeyboardInterrupt\<close> and
  \<^verbatim>\<open>SystemExit\<close> are not among them and are not modelled.
\<close>

datatype exn = PyException string


fun py_get :: "pyval \<Rightarrow> string \<Rightarrow> pyval \<Rightarrow> exn + pyval" where
  "py_get (PDict d) k dflt = Inr (dict_get d k dflt)"
| "py_get v k dflt = Inl (PyException ''AttributeError'')"

fun py_iter :: "pyval \<Rightarrow> exn + pyval list" where
  "py_iter (PList xs) = Inr xs"
| "py_iter (PStr s) = Inr (map (\<lambda>c. PStr [c]) s)"
| "py_iter (PDict kvs) = Inr (map (\<lambda>kv. PStr (fst kv)) kvs)"
| "py_iter v = Inl (PyException ''TypeError'')"


section \<open>The outside world\<close>

text \<open>
  A \<^verbatim>\<open>pathlib.Path\<close> is kept as the expression that builds it: \<^verbatim>\<open>Path(s)\<close> and
  \<^verbatim>\<open>p / name\<close>. The file system decides what a path denotes.
\<close>

datatype path = Path string | PathJoin path string

text \<open>A \<^verbatim>\<open>datetime\<close> in UTC, as \<^verbatim>\<open>datetime.now(timezone.utc)\<close> gives it.\<close>

record datetime =
  dt_year :: nat
  dt_month :: nat
  dt_day :: nat
  dt_hour :: nat
  dt_minute :: nat
  dt_second :: nat
  dt_microsecond :: nat

text \<open>
  What the script does to the world is kept as a trace of events: log records (level and
  the parts of the formatted message), console lines, pauses, and one event for each call
  of a collaborator with its arguments.
\<close>

datatype level = INFO | WARNING | ERROR

datatype event =
    Log level "pyval list"
  | Print "pyval list"
  | Sleep nat
  | Call_load_json path
  | Call_extract_article_text pyval
  | Call_process_articles_batch "dict list" string string
  | Call_summarize_article pyval string string
  | Call_summarize_articles "pyval list" string
  | Call_ensure_directory string
  | Call_save_json dict path

text \<open>
  The collaborators are imported from other modules (\<^verbatim>\<open>data_fetchers\<close>,
  \<^verbatim>\<open>nlp_processing\<close>, \<^verbatim>\<open>utils\<close>, \<^verbatim>\<open>summarize\<close>) and the standard library; they are
  parameters of the model. Each reads and changes a world \<open>'w\<close> (files, network, clock,
  random generator). A collaborator of the repository may raise; the standard library
  calls the script makes (\<^verbatim>\<open>Path.exists\<close>, \<^verbatim>\<open>Path.glob\<close>, \<^verbatim>\<open>datetime.now\<close>,
  \<^verbatim>\<open>random.uniform\<close>, \<^verbatim>\<open>time.sleep\<close>) return. The cache file holds a JSON array of
  article objects, so \<open>load_json\<close> returns a list of dictionaries or raises.
\<close>

record 'w env =
  path_exists :: "path \<Rightarrow> 'w \<Rightarrow> bool \<times> 'w"
  path_glob :: "path \<Rightarrow> string \<Rightarrow> 'w \<Rightarrow> string list \<times> 'w"
  utc_now :: "'w \<Rightarrow> datetime \<times> 'w"
  random_uniform :: "real \<Rightarrow> real \<Rightarrow> 'w \<Rightarrow> real \<times> 'w"
  time_sleep :: "nat \<Rightarrow> 'w \<Rightarrow> 'w"
  load_json :: "path \<Rightarrow> 'w \<Rightarrow> (exn + dict list) \<times> 'w"
  extract_article_text :: "pyval \<Rightarrow> 'w \<Rightarrow> (exn + pyval) \<times> 'w"
  process_articles_batch :: "dict list \<Rightarrow> string \<Rightarrow> string \<Rightarrow> 'w \<Rightarrow> (exn + pyval) \<times> 'w"
  summarize_article :: "pyval \<Rightarrow> string \<Rightarrow> string \<Rightarrow> 'w \<Rightarrow> (exn + pyval) \<times> 'w"
  summarize_articles :: "pyval list \<Rightarrow> string \<Rightarrow> 'w \<Rightarrow> (exn + pyval) \<times> 'w"
  ensure_directory :: "string \<Rightarrow> 'w \<Rightarrow> (exn + string) \<times> 'w"
  save_json :: "dict \<Rightarrow> path \<Rightarrow> 'w \<Rightarrow> (exn + unit) \<times> 'w"

section \<open>Statements with effects and exceptions\<close>

text \<open>
  A statement runs on a world and a trace and either raises (\<open>Inl\<close>) or returns a value
  (\<open>Inr\<close>), with the world and the trace it leaves behind.
\<close>

type_synonym ('a, 'w) io = "'w \<times> event list \<Rightarrow> (exn + 'a) \<times> ('w \<times> event list)"

definition io_return :: "'a \<Rightarrow> ('a, 'w) io" where
  "io_return x s = (Inr x, s)"

definition io_lift :: "exn + 'a \<Rightarrow> ('a, 'w) io" where
  "io_lift r s = (r, s)"

definition io_bind :: "('a, 'w) io \<Rightarrow> ('a \<Rightarrow> ('b, 'w) io) \<Rightarrow> ('b, 'w) io" where
  "io_bind m f s = (case m s of (Inl e, s') \<Rightarrow> (Inl e, s') | (Inr x, s') \<Rightarrow> f x s')"

text \<open>\<^verbatim>\<open>try: m except Exception as e: h\<close>\<close>

definition io_try :: "('a, 'w) io \<Rightarrow> (exn \<Rightarrow> ('a, 'w) io) \<Rightarrow> ('a, 'w) io" where
  "io_try m h s = (case m s of (Inl e, s') \<Rightarrow> h e s' | (Inr x, s') \<Rightarrow> (Inr x, s'))"

definition emit :: "event \<Rightarrow> (unit, 'w) io" where
  "emit ev s = (Inr (), (fst s, snd s @ [ev]))"

text \<open>A call of a collaborator: the call is recorded, then the collaborator runs.\<close>

definition call :: "event \<Rightarrow> ('w \<Rightarrow> (exn + 'a) \<times> 'w) \<Rightarrow> ('a, 'w) io" where
  "call ev f s = (case f (fst s) of (r, w') \<Rightarrow> (r, (w', snd s @ [ev])))"

text \<open>A call into the standard library.\<close>

definition std :: "('w \<Rightarrow> 'a \<times> 'w) \<Rightarrow> ('a, 'w) io" where
  "std f s = (case f (fst s) of (x, w') \<Rightarrow> (Inr x, (w', snd s)))"


definition py_sleep :: "'w env \<Rightarrow> nat \<Rightarrow> (unit, 'w) io" where
  "py_sleep env n = io_bind (emit (Sleep n)) (\<lambda>_. std (\<lambda>w. ((), time_sleep env n w)))"

definition str_of_exn :: "exn \<Rightarrow> string" where
  "str_of_exn e = (case e of PyException msg \<Rightarrow> msg)"

section \<open>Loading the cached news\<close>

text \<open>
  \<^verbatim>\<open>
  def get_news_articles(symbol: str):
      news_path = Path(f"STOCK_DB/news/{symbol}_news.json")
      if not news_path.exists():
          logger.warning(f"No news file found for {symbol}")
          return []
      try:
          articles = load_json(news_path)
          return articles[:5] if len(articles) > 5 else articles
      except Exception as e:
          logger.error(f"Error loading news for {symbol}: {e}")
          return []
  \<close>
\<close>

definition get_news_articles :: "'w env \<Rightarrow> string \<Rightarrow> (dict list, 'w) io" where
  "get_news_articles env symbol =
     (let news_path = Path (''STOCK_DB/news/'' @ symbol @ ''_news.json'') in
      io_bind (std (path_exists env news_path)) (\<lambda>found.
        if \<not> found then
          io_bind (emit (Log WARNING [PStr ''No news file found for '', PStr symbol])) (\<lambda>_.
          io_return [])
        else
          io_try
            (io_bind (call (Call_load_json news_path) (load_json env news_path)) (\<lambda>articles.
             io_return (if length articles > 5 then take 5 articles else articles)))
            (\<lambda>e.
             io_bind (emit (Log ERROR [PStr ''Error loading news for '', PStr symbol,
                                       PStr '': '', PStr (str_of_exn e)])) (\<lambda>_.
             io_return []))))"

section \<open>Building the summary of one company\<close>

definition sentinel :: string where
  "sentinel = ''Full article text not found.''"

text \<open>
  The test of the first \<^verbatim>\<open>if\<close> of the loop over the articles:
  \<^verbatim>\<open>
  "full_article_text" in article and article["full_article_text"]
    and article["full_article_text"] != "Full article text not found."
  \<close>
\<close>

definition has_text :: "dict \<Rightarrow> bool" where
  "has_text article =
     (case map_of article ''full_article_text'' of
        None \<Rightarrow> False
      | Some v \<Rightarrow> truthy v \<and> v \<noteq> PStr sentinel)"

text \<open>
  The body of the loop, for one article. It returns the article as the loop leaves it (the
  dictionary is updated in place) and the counter.
  \<^verbatim>\<open>
  for article in news_articles:
      if <the test above>:
          articles_with_text += 1
          continue
      url = article.get("url", article.get("link", ""))
      if url:
          full_article_text = extract_article_text(url)
          article["full_article_text"] = full_article_text
          if full_article_text != "Full article text not found.":
              articles_with_text += 1
  \<close>
\<close>

definition extract_one :: "'w env \<Rightarrow> dict \<Rightarrow> nat \<Rightarrow> (dict \<times> nat, 'w) io" where
  "extract_one env article articles_with_text =
     (if has_text article then io_return (article, articles_with_text + 1)
      else
        let url = dict_get article ''url'' (dict_get article ''link'' (PStr [])) in
        if truthy url then
          io_bind (call (Call_extract_article_text url) (extract_article_text env url))
            (\<lambda>full_article_text.
               io_return
                 (AList.update ''full_article_text'' full_article_text article,
                  if full_article_text \<noteq> PStr sentinel then articles_with_text + 1
                  else articles_with_text))
        else io_return (article, articles_with_text))"

fun extract_all :: "'w env \<Rightarrow> dict list \<Rightarrow> nat \<Rightarrow> (dict list \<times> nat, 'w) io" where
  "extract_all env [] articles_with_text = io_return ([], articles_with_text)"
| "extract_all env (article # rest) articles_with_text =
     io_bind (extract_one env article articles_with_text) (\<lambda>(article', n).
     io_bind (extract_all env rest n) (\<lambda>(rest', n').
     io_return (article' # rest', n')))"

text \<open>
  The body of the loop over the condensed articles, for the article at index \<open>i\<close>.
  \<^verbatim>\<open>
  for i, article in enumerate(processed_articles):
      condensed_text = article.get('condensed_text', '')
      if condensed_text:
          print(f"\nArticle {i+1}:")
          print("-" * 40)
          print(condensed_text)
          print("-" * 40)
          summary = summarize_article(condensed_text, symbol, direction)
          if summary:
              summaries.append(summary)
          time.sleep(2)
  \<close>
\<close>

definition summarize_one ::
  "'w env \<Rightarrow> string \<Rightarrow> string \<Rightarrow> nat \<Rightarrow> pyval \<Rightarrow> pyval list \<Rightarrow> (pyval list, 'w) io" where
  "summarize_one env symbol direction i article summaries =
     io_bind (io_lift (py_get article ''condensed_text'' (PStr []))) (\<lambda>condensed_text.
       if truthy condensed_text then
         io_bind (emit (Print [PStr (CHR 0x0A # ''Article ''), PInt (int i + 1), PStr '':''])) (\<lambda>_.
         io_bind (emit (Print [PStr (replicate 40 CHR ''-'')])) (\<lambda>_.
         io_bind (emit (Print [condensed_text])) (\<lambda>_.
         io_bind (emit (Print [PStr (replicate 40 CHR ''-'')])) (\<lambda>_.
         io_bind (call (Call_summarize_article condensed_text symbol direction)
                    (summarize_article env condensed_text symbol direction)) (\<lambda>summary.
         io_bind (py_sleep env 2) (\<lambda>_.
         io_return (if truthy summary then summaries @ [summary] else summaries)))))))
       else io_return summaries)"

fun summarize_each ::
  "'w env \<Rightarrow> string \<Rightarrow> string \<Rightarrow> nat \<Rightarrow> pyval list \<Rightarrow> pyval list \<Rightarrow> (pyval list, 'w) io" where
  "summarize_each env symbol direction i [] summaries = io_return summaries"
| "summarize_each env symbol direction i (article # rest) summaries =
     io_bind (summarize_one env symbol direction i article summaries) (\<lambda>summaries'.
     summarize_each env symbol direction (i + 1) rest summaries')"

text \<open>
  The body of the \<^verbatim>\<open>try\<close> statement: condense, summarise each article, aggregate.
  \<^verbatim>\<open>
  processed_articles = process_articles_batch(news_articles, symbol, symbol)
  print("\n" + "="*80)
  print(f"PROCESSED TEXT AFTER NLP FOR {symbol}:")
  print("="*80)
  summaries = []
  for i, article in enumerate(processed_articles): ...
  summaries = [s for s in summaries if s]
  if not summaries:
      logger.info(f"No valid summaries generated for {symbol}")
      return {"symbol": symbol, "exchange": exchange, "type": classification,
              "period": "day", "summary": "No valid article summaries could be generated."}
  explanation = summarize_articles(summaries, symbol)
  return {"symbol": symbol, "exchange": exchange, "type": classification,
          "summary": explanation}
  \<close>
\<close>

definition summarize_body ::
  "'w env \<Rightarrow> string \<Rightarrow> string \<Rightarrow> dict list \<Rightarrow> string \<Rightarrow> string \<Rightarrow> (dict, 'w) io" where
  "summarize_body env symbol exchange news_articles classification direction =
     io_bind (call (Call_process_articles_batch news_articles symbol symbol)
                (process_articles_batch env news_articles symbol symbol)) (\<lambda>processed_articles.
     io_bind (emit (Print [PStr (CHR 0x0A # replicate 80 CHR ''='')])) (\<lambda>_.
     io_bind (emit (Print [PStr ''PROCESSED TEXT AFTER NLP FOR '', PStr symbol, PStr '':''])) (\<lambda>_.
     io_bind (emit (Print [PStr (replicate 80 CHR ''='')])) (\<lambda>_.
     io_bind (io_lift (py_iter processed_articles)) (\<lambda>items.
     io_bind (summarize_each env symbol direction 0 items []) (\<lambda>collected.
       let summaries = filter truthy collected in
       if summaries = [] then
         io_bind (emit (Log INFO [PStr ''No valid summaries generated for '', PStr symbol])) (\<lambda>_.
         io_return
           [(''symbol'', PStr symbol), (''exchange'', PStr exchange),
            (''type'', PStr classification), (''period'', PStr ''day''),
            (''summary'', PStr ''No valid article summaries could be generated.'')])
       else
         io_bind (call (Call_summarize_articles summaries symbol)
                    (summarize_articles env summaries symbol)) (\<lambda>explanation.
         io_return
           [(''symbol'', PStr symbol), (''exchange'', PStr exchange),
            (''type'', PStr classification), (''summary'', explanation)])))))))"

text \<open>
  \<^verbatim>\<open>
  def process_company_data(symbol, exchange, news_articles, classification):
      direction = "up" if classification == "gainer" else \
                  "down" if classification == "loser" else "neutral"
      logger.info(f"Processing data for symbol: {symbol} - Classified as {classification}")
      if not news_articles:
          logger.info(f"No news articles found for {symbol}")
          return {"symbol": symbol, "exchange": exchange, "type": classification,
                  "period": "day", "summary": "There are no news currently ..."}
      articles_with_text = 0
      for article in news_articles: ...
      if articles_with_text == 0:
          logger.info(f"All articles for {symbol} returned ... - skipping summary")
          return {"symbol": symbol, "exchange": exchange, "type": classification,
                  "period": "day", "summary": "There are no news currently ..."}
      else:
          try:
              ...
          except Exception as e:
              logger.error(f"Error summarizing articles for {symbol}: {e}")
              return {"symbol": symbol, "exchange": exchange, "type": classification,
                      "period": "day", "summary": "There was an error generating the summary."}
  \<close>
\<close>

text \<open>
  The first line of the function:
  \<^verbatim>\<open>"up" if classification == "gainer" else "down" if classification == "loser" else "neutral"\<close>
\<close>

definition direction_of :: "string \<Rightarrow> string" where
  "direction_of classification =
     (if classification = ''gainer'' then ''up''
      else if classification = ''loser'' then ''down'' else ''neutral'')"

definition process_company_data ::
  "'w env \<Rightarrow> string \<Rightarrow> string \<Rightarrow> dict list \<Rightarrow> string \<Rightarrow> (dict, 'w) io" where
  "process_company_data env symbol exchange news_articles classification =
     (let direction = direction_of classification in
      io_bind (emit (Log INFO [PStr ''Processing data for symbol: '', PStr symbol,
                               PStr '' - Classified as '', PStr classification])) (\<lambda>_.
      if news_articles = [] then
        io_bind (emit (Log INFO [PStr ''No news articles found for '', PStr symbol])) (\<lambda>_.
        io_return
          [(''symbol'', PStr symbol), (''exchange'', PStr exchange),
           (''type'', PStr classification), (''period'', PStr ''day''),
           (''summary'', PStr ''There are no news currently affecting the stock price, fluctuations might be due to market conditions.'')])
      else
        io_bind (extract_all env news_articles 0) (\<lambda>(articles, articles_with_text).
        if articles_with_text = 0 then
          io_bind (emit (Log INFO [PStr ''All articles for '', PStr symbol,
                     PStr '' returned 'Full article text not found' - skipping summary''])) (\<lambda>_.
          io_return
            [(''symbol'', PStr symbol), (''exchange'', PStr exchange),
             (''type'', PStr classification), (''period'', PStr ''day''),
             (''summary'', PStr ''There are no news currently affecting the stock price, fluctuations might be due to market conditions.'')])
        else
          io_try
            (summarize_body env symbol exchange articles classification direction)
            (\<lambda>e.
             io_bind (emit (Log ERROR [PStr ''Error summarizing articles for '', PStr symbol,
                                       PStr '': '', PStr (str_of_exn e)])) (\<lambda>_.
             io_return
               [(''symbol'', PStr symbol), (''exchange'', PStr exchange),
                (''type'', PStr classification), (''period'', PStr ''day''),
                (''summary'', PStr ''There was an error generating the summary.'')])))))"

section \<open>Classification\<close>

text \<open>
  \<^verbatim>\<open>
  def classify_company(net_change_percentage: float):
      if net_change_percentage > 0:
          return "gainer"
      else:
          return "loser"
  \<close>
\<close>

definition classify_company :: "real \<Rightarrow> string" where
  "classify_company net_change_percentage =
     (if net_change_percentage > 0 then ''gainer'' else ''loser'')"

section \<open>The time stamp\<close>

text \<open>
  \<^verbatim>\<open>datetime.now(timezone.utc).isoformat()\<close> prints the fields in decimal, padded with
  zeros to 4, 2 and 6 places, leaves the microseconds out when they are zero, and ends
  with the offset of UTC.
\<close>

definition digit_char :: "nat \<Rightarrow> char" where
  "digit_char n = ''0123456789'' ! (n mod 10)"

fun decimal :: "nat \<Rightarrow> string" where
  "decimal n = (if n < 10 then [digit_char n] else decimal (n div 10) @ [digit_char n])"

declare decimal.simps [simp del]

definition zero_pad :: "nat \<Rightarrow> nat \<Rightarrow> string" where
  "zero_pad width n = replicate (width - length (decimal n)) CHR ''0'' @ decimal n"

definition isoformat :: "datetime \<Rightarrow> string" where
  "isoformat dt =
     zero_pad 4 (dt_year dt) @ ''-'' @ zero_pad 2 (dt_month dt) @ ''-'' @ zero_pad 2 (dt_day dt)
     @ ''T'' @ zero_pad 2 (dt_hour dt) @ '':'' @ zero_pad 2 (dt_minute dt)
     @ '':'' @ zero_pad 2 (dt_second dt)
     @ (if dt_microsecond dt \<noteq> 0 then ''.'' @ zero_pad 6 (dt_microsecond dt) else [])
     @ ''+00:00''"

text \<open>
  The ranges Python's \<^verbatim>\<open>datetime\<close> keeps its fields in: years 1 to 9999, and a day that
  exists in its month of the Gregorian calendar.
\<close>

definition leap_year :: "nat \<Rightarrow> bool" where
  "leap_year y = (y mod 4 = 0 \<and> (y mod 100 \<noteq> 0 \<or> y mod 400 = 0))"

definition days_in_month :: "nat \<Rightarrow> nat \<Rightarrow> nat" where
  "days_in_month y m =
     (if m = 2 then (if leap_year y then 29 else 28)
      else if m = 4 \<or> m = 6 \<or> m = 9 \<or> m = 11 then 30 else 31)"

definition valid_datetime :: "datetime \<Rightarrow> bool" where
  "valid_datetime dt =
     (1 \<le> dt_year dt \<and> dt_year dt \<le> 9999 \<and> 1 \<le> dt_month dt \<and> dt_month dt \<le> 12
      \<and> 1 \<le> dt_day dt \<and> dt_day dt \<le> days_in_month (dt_year dt) (dt_month dt)
      \<and> dt_hour dt < 24 \<and> dt_minute dt < 60 \<and> dt_second dt < 60
      \<and> dt_microsecond dt < 1000000)"

text \<open>
  Reading an ISO 8601 time stamp in UTC: \<^verbatim>\<open>YYYY-MM-DDTHH:MM:SS\<close>, then an optional
  \<^verbatim>\<open>.ffffff\<close>, then the offset \<^verbatim>\<open>+00:00\<close>. A field is read as a decimal number of
  exactly its width; the stamp is accepted when nothing is left over and the fields are a
  date and a time that exist.
\<close>

fun index_of :: "char \<Rightarrow> string \<Rightarrow> nat option" where
  "index_of c [] = None"
| "index_of c (x # xs) = (if c = x then Some 0 else map_option Suc (index_of c xs))"

definition digit_value :: "char \<Rightarrow> nat option" where
  "digit_value c = index_of c ''0123456789''"

fun read_digits :: "nat \<Rightarrow> string \<Rightarrow> nat option" where
  "read_digits acc [] = Some acc"
| "read_digits acc (c # cs) =
     (case digit_value c of None \<Rightarrow> None | Some d \<Rightarrow> read_digits (10 * acc + d) cs)"

definition take_number :: "nat \<Rightarrow> string \<Rightarrow> (nat \<times> string) option" where
  "take_number width s =
     (if 0 < width \<and> width \<le> length s then
        (case read_digits 0 (take width s) of
           None \<Rightarrow> None
         | Some n \<Rightarrow> Some (n, drop width s))
      else None)"

fun expect :: "char \<Rightarrow> string \<Rightarrow> string option" where
  "expect c [] = None"
| "expect c (x # xs) = (if x = c then Some xs else None)"

definition parse_iso8601_utc :: "string \<Rightarrow> datetime option" where
  "parse_iso8601_utc s0 =
     Option.bind (take_number 4 s0) (\<lambda>(y, s1).
     Option.bind (expect CHR ''-'' s1) (\<lambda>s2.
     Option.bind (take_number 2 s2) (\<lambda>(mo, s3).
     Option.bind (expect CHR ''-'' s3) (\<lambda>s4.
     Option.bind (take_number 2 s4) (\<lambda>(d, s5).
     Option.bind (expect CHR ''T'' s5) (\<lambda>s6.
     Option.bind (take_number 2 s6) (\<lambda>(h, s7).
     Option.bind (expect CHR '':'' s7) (\<lambda>s8.
     Option.bind (take_number 2 s8) (\<lambda>(mi, s9).
     Option.bind (expect CHR '':'' s9) (\<lambda>s10.
     Option.bind (take_number 2 s10) (\<lambda>(se, s11).
     Option.bind
       (if s11 = ''+00:00'' then Some 0
        else
          Option.bind (expect CHR ''.'' s11) (\<lambda>s12.
          Option.bind (take_number 6 s12) (\<lambda>(us, s13).
          if s13 = ''+00:00'' then Some us else None))) (\<lambda>us.
       let dt = \<lparr>dt_year = y, dt_month = mo, dt_day = d, dt_hour = h, dt_minute = mi,
                 dt_second = se, dt_microsecond = us\<rparr>
       in if valid_datetime dt then Some dt else None))))))))))))"

definition is_iso8601_utc :: "string \<Rightarrow> bool" where
  "is_iso8601_utc s = (parse_iso8601_utc s \<noteq> None)"

section \<open>One company, and all of them\<close>

text \<open>
  \<^verbatim>\<open>
  def why_it_moves(symbol: str, exchange: str, daily_change_percentage: float):
      classification = classify_company(daily_change_percentage)
      news_articles = get_news_articles(symbol)
      summary = {
          **process_company_data(symbol, exchange, news_articles, classification),
          "daily_change_percentage": daily_change_percentage,
          "date_generated": datetime.now(timezone.utc).isoformat(),
      }
      output_dir = ensure_directory("STOCK_DB/movers")
      output_file = Path(output_dir) / f"{symbol}_summary.json"
      save_json(summary, output_file)
      logger.info(f"{exchange}/{symbol} mover summary saved to {output_file}")
      return summary
  \<close>
\<close>

text \<open>
  In the last log record the output file is written by its parts, the directory and the
  file name.
\<close>

definition why_it_moves :: "'w env \<Rightarrow> string \<Rightarrow> string \<Rightarrow> real \<Rightarrow> (dict, 'w) io" where
  "why_it_moves env symbol exchange daily_change_percentage =
     (let classification = classify_company daily_change_percentage in
      io_bind (get_news_articles env symbol) (\<lambda>news_articles.
      io_bind (process_company_data env symbol exchange news_articles classification) (\<lambda>built.
      io_bind (std (utc_now env)) (\<lambda>now.
        let summary =
          AList.update ''date_generated'' (PStr (isoformat now))
            (AList.update ''daily_change_percentage'' (PFloat daily_change_percentage) built) in
        io_bind (call (Call_ensure_directory ''STOCK_DB/movers'')
                   (ensure_directory env ''STOCK_DB/movers'')) (\<lambda>output_dir.
          let output_file = PathJoin (Path output_dir) (symbol @ ''_summary.json'') in
          io_bind (call (Call_save_json summary output_file)
                     (save_json env summary output_file)) (\<lambda>_.
          io_bind (emit (Log INFO [PStr exchange, PStr ''/'', PStr symbol,
                     PStr '' mover summary saved to '', PStr output_dir, PStr ''/'',
                     PStr (symbol @ ''_summary.json'')])) (\<lambda>_.
          io_return summary)))))))"








section \<open>Concrete worlds\<close>

text \<open>
  Worlds to run the script in. In \<open>demo_env\<close> every file exists, the news directory
  holds two files, every collaborator returns, and the page at \<^verbatim>\<open>http://bad\<close> is the one
  the extractor raises on. The cache of \<open>AAPL\<close> holds one article with a link, the cache of
  \<open>BAD\<close> one article whose page cannot be fetched, the cache of \<open>OLD\<close> seven articles
  without links, and every other cache is empty.
\<close>

definition demo_clock :: datetime where
  "demo_clock =
     \<lparr>dt_year = 2024, dt_month = 3, dt_day = 9, dt_hour = 14, dt_minute = 5, dt_second = 7,
      dt_microsecond = 1234\<rparr>"

definition demo_cache :: "path \<Rightarrow> dict list" where
  "demo_cache p =
     (if p = Path ''STOCK_DB/news/AAPL_news.json'' then [[(''url'', PStr ''http://a'')]]
      else if p = Path ''STOCK_DB/news/BAD_news.json'' then [[(''url'', PStr ''http://bad'')]]
      else if p = Path ''STOCK_DB/news/OLD_news.json'' then
        map (\<lambda>i. [(''title'', PInt i)]) [1, 2, 3, 4, 5, 6, 7]
      else [])"

definition demo_env :: "unit env" where
  "demo_env =
     \<lparr>path_exists = (\<lambda>p w. (True, w)),
      path_glob = (\<lambda>p pat w. ([''BAD_news.json'', ''AAPL_news.json''], w)),
      utc_now = (\<lambda>w. (demo_clock, w)),
      random_uniform = (\<lambda>a b w. (3 / 2, w)),
      time_sleep = (\<lambda>n w. w),
      load_json = (\<lambda>p w. (Inr (demo_cache p), w)),
      extract_article_text =
        (\<lambda>url w. (if url = PStr ''http://bad'' then Inl (PyException ''ConnectionError'')
                   else Inr (PStr ''Shares rose after earnings.''), w)),
      process_articles_batch =
        (\<lambda>articles a b w. (Inr (PList [PDict [(''condensed_text'', PStr ''Shares rose.'')]]), w)),
      summarize_article = (\<lambda>t sym dir w. (Inr (PStr ''Earnings beat.''), w)),
      summarize_articles = (\<lambda>ss sym w. (Inr (PStr ''Up on earnings.''), w)),
      ensure_directory = (\<lambda>d w. (Inr d, w)),
      save_json = (\<lambda>d p w. (Inr (), w))\<rparr>"

definition demo_articles :: "dict list" where
  "demo_articles = [[(''url'', PStr ''http://a'')]]"

definition bad_articles :: "dict list" where
  "bad_articles = [[(''url'', PStr ''http://bad'')]]"

text \<open>Two articles without a link and without text; the second has an empty link.\<close>

definition unlinked_articles :: "dict list" where
  "unlinked_articles = [[(''title'', PStr ''Q3'')], [(''title'', PStr ''Q4''), (''link'', PStr [])]]"

text \<open>The condenser finds nothing to condense.\<close>

definition silent_env :: "unit env" where
  "silent_env = demo_env\<lparr>process_articles_batch := (\<lambda>articles a b w. (Inr (PList []), w))\<rparr>"

text \<open>The condenser raises.\<close>

definition failing_env :: "unit env" where
  "failing_env =
     demo_env\<lparr>process_articles_batch := (\<lambda>articles a b w. (Inl (PyException ''RuntimeError''), w))\<rparr>"

text \<open>The extractor fetches a page and finds no text in it: it returns the empty string.\<close>

definition blank_env :: "unit env" where
  "blank_env = silent_env\<lparr>extract_article_text := (\<lambda>url w. (Inr (PStr []), w))\<rparr>"

text \<open>The cache file is missing; the cache file cannot be parsed.\<close>

definition missing_env :: "unit env" where
  "missing_env = demo_env\<lparr>path_exists := (\<lambda>p w. (False, w))\<rparr>"

definition corrupt_env :: "unit env" where
  "corrupt_env = demo_env\<lparr>load_json := (\<lambda>p w. (Inl (PyException ''JSONDecodeError''), w))\<rparr>"

section \<open>How the statements run\<close>

lemmas run_defs =
  io_bind_def io_try_def io_return_def io_lift_def emit_def call_def std_def py_sleep_def
  Let_def

text \<open>
  The try body returns one of two records, and says which by the last event it leaves:
  the log record of the fallback, or the call of the aggregate summarizer.
\<close>

lemma summarize_body_shape:
  assumes "summarize_body env symbol exchange articles classification direction s = (Inr r, s')"
  shows "(r = [(''symbol'', PStr symbol), (''exchange'', PStr exchange),
               (''type'', PStr classification), (''period'', PStr ''day''),
               (''summary'', PStr ''No valid article summaries could be generated.'')]
          \<and> last (snd s') = Log INFO [PStr ''No valid summaries generated for '', PStr symbol])
       \<or> (\<exists>explanation summaries.
             r = [(''symbol'', PStr symbol), (''exchange'', PStr exchange),
                  (''type'', PStr classification), (''summary'', explanation)]
             \<and> last (snd s') = Call_summarize_articles summaries symbol)"
  using assms unfolding summarize_body_def
  by (auto simp: io_bind_def emit_def call_def io_lift_def io_return_def Let_def
           split: prod.splits sum.splits if_splits)

text \<open>\<open>process_company_data\<close>, statement by statement.\<close>

lemma process_company_data_run:
  "process_company_data env symbol exchange news_articles classification s =
     (let s0 = (fst s, snd s @ [Log INFO [PStr ''Processing data for symbol: '', PStr symbol,
                                          PStr '' - Classified as '', PStr classification]])
      in
      if news_articles = [] then
        (Inr [(''symbol'', PStr symbol), (''exchange'', PStr exchange),
              (''type'', PStr classification), (''period'', PStr ''day''),
              (''summary'', PStr ''There are no news currently affecting the stock price, fluctuations might be due to market conditions.'')],
         (fst s0, snd s0 @ [Log INFO [PStr ''No news articles found for '', PStr symbol]]))
      else
        (case extract_all env news_articles 0 s0 of
           (Inl e, s1) \<Rightarrow> (Inl e, s1)
         | (Inr (articles, n), s1) \<Rightarrow>
             if n = 0 then
               (Inr [(''symbol'', PStr symbol), (''exchange'', PStr exchange),
                     (''type'', PStr classification), (''period'', PStr ''day''),
                     (''summary'', PStr ''There are no news currently affecting the stock price, fluctuations might be due to market conditions.'')],
                (fst s1, snd s1 @ [Log INFO [PStr ''All articles for '', PStr symbol,
                     PStr '' returned 'Full article text not found' - skipping summary'']]))
             else
               (case summarize_body env symbol exchange articles classification
                       (direction_of classification) s1 of
                  (Inl e, s2) \<Rightarrow>
                    (Inr [(''symbol'', PStr symbol), (''exchange'', PStr exchange),
                          (''type'', PStr classification), (''period'', PStr ''day''),
                          (''summary'', PStr ''There was an error generating the summary.'')],
                     (fst s2, snd s2 @ [Log ERROR [PStr ''Error summarizing articles for '',
                          PStr symbol, PStr '': '', PStr (str_of_exn e)]]))
                | (Inr r, s2) \<Rightarrow> (Inr r, s2))))"
  unfolding process_company_data_def Let_def
  by (simp add: io_bind_def io_try_def emit_def io_return_def split: prod.splits sum.splits)

text \<open>Every record \<open>process_company_data\<close> returns, with the last event of the run.\<close>

lemma process_company_data_shape:
  assumes "process_company_data env symbol exchange news_articles classification s = (Inr r, s')"
  shows "((r = [(''symbol'', PStr symbol), (''exchange'', PStr exchange),
               (''type'', PStr classification), (''period'', PStr ''day''),
               (''summary'', PStr ''There are no news currently affecting the stock price, fluctuations might be due to market conditions.'')]
          \<or> r = [(''symbol'', PStr symbol), (''exchange'', PStr exchange),
               (''type'', PStr classification), (''period'', PStr ''day''),
               (''summary'', PStr ''No valid article summaries could be generated.'')]
          \<or> r = [(''symbol'', PStr symbol), (''exchange'', PStr exchange),
               (''type'', PStr classification), (''period'', PStr ''day''),
               (''summary'', PStr ''There was an error generating the summary.'')])
          \<and> (\<exists>lvl msg. last (snd s') = Log lvl msg))
       \<or> (\<exists>explanation summaries.
             r = [(''symbol'', PStr symbol), (''exchange'', PStr exchange),
                  (''type'', PStr classification), (''summary'', explanation)]
             \<and> last (snd s') = Call_summarize_articles summaries symbol)"
proof (cases "news_articles = []")
  case True
  with assms show ?thesis
    by (auto simp: process_company_data_run)
next
  case False
  let ?s0 = "(fst s, snd s @ [Log INFO [PStr ''Processing data for symbol: '', PStr symbol,
                                          PStr '' - Classified as '', PStr classification]])"
  obtain res s1 where ex: "extract_all env news_articles 0 ?s0 = (res, s1)"
    by (cases "extract_all env news_articles 0 ?s0")
  show ?thesis
  proof (cases res)
    case (Inl e)
    with assms False ex show ?thesis
      by (simp add: process_company_data_run)
  next
    case (Inr out)
    obtain articles n where out: "out = (articles, n)" by (cases out)
    show ?thesis
    proof (cases "n = 0")
      case True
      with assms False ex Inr out show ?thesis
        by (auto simp: process_company_data_run)
    next
      case nz: False
      obtain res2 s2 where body:
        "summarize_body env symbol exchange articles classification
           (direction_of classification) s1 = (res2, s2)"
        by (cases "summarize_body env symbol exchange articles classification
           (direction_of classification) s1")
      show ?thesis
      proof (cases res2)
        case (Inl e)
        with assms False ex Inr out nz body show ?thesis
          by (auto simp: process_company_data_run)
      next
        case r2: (Inr b)
        with assms False ex Inr out nz body have "r = b" "s' = s2"
          by (auto simp: process_company_data_run)
        with summarize_body_shape[OF body[unfolded r2]] show ?thesis by blast
      qed
    qed
  qed
qed

text \<open>The loop over the articles runs through a list part by part.\<close>

lemma extract_all_append:
  "extract_all env (xs @ ys) n s =
     (case extract_all env xs n s of
        (Inl e, s1) \<Rightarrow> (Inl e, s1)
      | (Inr (xs', n1), s1) \<Rightarrow>
          (case extract_all env ys n1 s1 of
             (Inl e, s2) \<Rightarrow> (Inl e, s2)
           | (Inr (ys', n2), s2) \<Rightarrow> (Inr (xs' @ ys', n2), s2)))"
proof (induction xs arbitrary: n s)
  case Nil
  show ?case
    by (simp add: io_return_def split: prod.splits sum.splits)
next
  case (Cons x xs)
  show ?case
    by (simp add: Cons.IH io_bind_def io_return_def split: prod.splits sum.splits)
qed

text \<open>
  The time stamp: a field within its range is printed with exactly as many digits as its
  width.
\<close>

lemma length_decimal: "n < 10 ^ w \<Longrightarrow> 0 < w \<Longrightarrow> length (decimal n) \<le> w"
proof (induction w arbitrary: n)
  case 0
  then show ?case by simp
next
  case (Suc w)
  show ?case
  proof (cases "n < 10")
    case True
    then show ?thesis by (simp add: decimal.simps [of n])
  next
    case False
    with Suc.prems have "n div 10 < 10 ^ w" by (simp add: less_mult_imp_div_less mult.commute)
    moreover from False Suc.prems have "0 < w" by (cases w) auto
    ultimately have "length (decimal (n div 10)) \<le> w" by (rule Suc.IH)
    with False show ?thesis by (simp add: decimal.simps [of n])
  qed
qed

lemma length_zero_pad: "n < 10 ^ w \<Longrightarrow> 0 < w \<Longrightarrow> length (zero_pad w n) = w"
  using length_decimal [of n w] by (simp add: zero_pad_def)

text \<open>Reading what \<open>isoformat\<close> printed gives the date and the time back.\<close>

lemma digit_value_below_ten:
  "k < 10 \<Longrightarrow> digit_value (''0123456789'' ! k) = Some k"
proof -
  assume "k < 10"
  then have "k = 0 \<or> k = 1 \<or> k = 2 \<or> k = 3 \<or> k = 4 \<or> k = 5 \<or> k = 6 \<or> k = 7
             \<or> k = 8 \<or> k = 9"
    by arith
  then show ?thesis
    by (auto simp: digit_value_def)
qed

lemma digit_value_digit_char: "digit_value (digit_char n) = Some (n mod 10)"
  by (simp add: digit_char_def digit_value_below_ten)

lemma read_digits_snoc:
  "read_digits acc (xs @ [c]) =
     (case read_digits acc xs of
        None \<Rightarrow> None
      | Some v \<Rightarrow> (case digit_value c of None \<Rightarrow> None | Some d \<Rightarrow> Some (10 * v + d)))"
  by (induction xs arbitrary: acc) (auto split: option.splits)

lemma read_digits_decimal:
  "read_digits acc (decimal n) = Some (acc * 10 ^ length (decimal n) + n)"
proof (induction n rule: decimal.induct)
  case (1 n)
  show ?case
  proof (cases "n < 10")
    case True
    then show ?thesis
      by (simp add: decimal.simps [of n] digit_value_digit_char)
  next
    case False
    have "10 * (n div 10) + n mod 10 = n" by simp
    with False "1.IH" show ?thesis
      by (simp add: decimal.simps [of n] read_digits_snoc digit_value_digit_char
            algebra_simps)
  qed
qed

lemma digit_value_zero: "digit_value CHR ''0'' = Some 0"
  by (simp add: digit_value_def)

lemma read_digits_zeros: "read_digits 0 (replicate k CHR ''0'' @ xs) = read_digits 0 xs"
  by (induction k) (simp_all add: digit_value_zero)

lemma read_digits_zero_pad: "read_digits 0 (zero_pad w n) = Some n"
  by (simp add: zero_pad_def read_digits_zeros read_digits_decimal)

lemma take_number_zero_pad:
  assumes "n < 10 ^ w" and "0 < w"
  shows "take_number w (zero_pad w n @ rest) = Some (n, rest)"
  using assms length_zero_pad [OF assms]
  by (simp add: take_number_def read_digits_zero_pad)

lemma parse_isoformat:
  assumes "valid_datetime dt"
  shows "parse_iso8601_utc (isoformat dt) = Some dt"
proof -
  from assms have
    y: "\<And>rest. take_number 4 (zero_pad 4 (dt_year dt) @ rest) = Some (dt_year dt, rest)"
    and mo: "\<And>rest. take_number 2 (zero_pad 2 (dt_month dt) @ rest) = Some (dt_month dt, rest)"
    and h: "\<And>rest. take_number 2 (zero_pad 2 (dt_hour dt) @ rest) = Some (dt_hour dt, rest)"
    and mi: "\<And>rest. take_number 2 (zero_pad 2 (dt_minute dt) @ rest) = Some (dt_minute dt, rest)"
    and se: "\<And>rest. take_number 2 (zero_pad 2 (dt_second dt) @ rest) = Some (dt_second dt, rest)"
    and us: "\<And>rest. take_number 6 (zero_pad 6 (dt_microsecond dt) @ rest)
               = Some (dt_microsecond dt, rest)"
    by (simp_all add: valid_datetime_def take_number_zero_pad)
  have "days_in_month (dt_year dt) (dt_month dt) \<le> 31"
    by (simp add: days_in_month_def)
  with assms have "dt_day dt < 10 ^ 2"
    by (simp add: valid_datetime_def)
  then have d: "\<And>rest. take_number 2 (zero_pad 2 (dt_day dt) @ rest) = Some (dt_day dt, rest)"
    by (simp add: take_number_zero_pad)
  have same: "\<lparr>dt_year = dt_year dt, dt_month = dt_month dt, dt_day = dt_day dt,
                dt_hour = dt_hour dt, dt_minute = dt_minute dt, dt_second = dt_second dt,
                dt_microsecond = dt_microsecond dt\<rparr> = dt"
    by (cases dt) simp
  show ?thesis
  proof (cases "dt_microsecond dt = 0")
    case True
    with same have eq0: "\<lparr>dt_year = dt_year dt, dt_month = dt_month dt, dt_day = dt_day dt,
                dt_hour = dt_hour dt, dt_minute = dt_minute dt, dt_second = dt_second dt,
                dt_microsecond = 0\<rparr> = dt"
      by simp
    from True assms show ?thesis
      by (simp add: parse_iso8601_utc_def isoformat_def y mo d h mi se Let_def eq0)
  next
    case False
    from False assms show ?thesis
      by (simp add: parse_iso8601_utc_def isoformat_def y mo d h mi se us Let_def same)
  qed
qed

text \<open>
  Which statements return: loading the news always does; building the summary does when
  the extractor does. Then \<open>why_it_moves\<close>, statement by statement.
\<close>

lemma get_news_articles_returns:
  "\<exists>articles s'. get_news_articles env symbol s = (Inr articles, s')"
  by (auto simp: get_news_articles_def run_defs split: prod.splits sum.splits)

lemma extract_one_returns:
  assumes "\<forall>url w. \<exists>t w'. extract_article_text env url w = (Inr t, w')"
  shows "\<exists>out s'. extract_one env article n s = (Inr out, s')"
proof -
  obtain t w' where
    "extract_article_text env (dict_get article ''url'' (dict_get article ''link'' (PStr [])))
       (fst s) = (Inr t, w')"
    using assms by blast
  then show ?thesis
    by (simp add: extract_one_def run_defs)
qed

lemma extract_all_returns:
  assumes "\<forall>url w. \<exists>t w'. extract_article_text env url w = (Inr t, w')"
  shows "\<exists>out s'. extract_all env articles n s = (Inr out, s')"
proof (induction articles arbitrary: n s)
  case Nil
  show ?case by (simp add: io_return_def)
next
  case (Cons a articles)
  obtain a' n1 s1 where one: "extract_one env a n s = (Inr (a', n1), s1)"
    using extract_one_returns [OF assms, of a n s] by auto
  obtain rest' n2 s2 where rest: "extract_all env articles n1 s1 = (Inr (rest', n2), s2)"
    using Cons.IH [of n1 s1] by auto
  show ?case
    by (simp add: one rest io_bind_def io_return_def)
qed

lemma process_company_data_returns:
  assumes "\<forall>url w. \<exists>t w'. extract_article_text env url w = (Inr t, w')"
  shows "\<exists>r s'. process_company_data env symbol exchange news_articles classification s
                   = (Inr r, s')"
proof -
  obtain out s1 where
    "extract_all env news_articles 0
       (fst s, snd s @ [Log INFO [PStr ''Processing data for symbol: '', PStr symbol,
                                   PStr '' - Classified as '', PStr classification]])
     = (Inr out, s1)"
    using extract_all_returns [OF assms] by blast
  then show ?thesis
    by (auto simp: process_company_data_run Let_def split: prod.splits sum.splits)
qed

lemma why_it_moves_run:
  "why_it_moves env symbol exchange c s =
     (case get_news_articles env symbol s of
        (Inl e, s1) \<Rightarrow> (Inl e, s1)
      | (Inr news_articles, s1) \<Rightarrow>
          (case process_company_data env symbol exchange news_articles (classify_company c) s1 of
             (Inl e, s2) \<Rightarrow> (Inl e, s2)
           | (Inr built, s2) \<Rightarrow>
               (case utc_now env (fst s2) of
                  (now, w3) \<Rightarrow>
                    (let summary =
                       AList.update ''date_generated'' (PStr (isoformat now))
                         (AList.update ''daily_change_percentage'' (PFloat c) built)
                     in
                     case ensure_directory env ''STOCK_DB/movers'' w3 of
                       (Inl e, w4) \<Rightarrow>
                         (Inl e, (w4, snd s2 @ [Call_ensure_directory ''STOCK_DB/movers'']))
                     | (Inr output_dir, w4) \<Rightarrow>
                         (let output_file =
                            PathJoin (Path output_dir) (symbol @ ''_summary.json'');
                              tr = snd s2 @ [Call_ensure_directory ''STOCK_DB/movers'',
                                             Call_save_json summary output_file]
                          in
                          case save_json env summary output_file w4 of
                            (Inl e, w5) \<Rightarrow> (Inl e, (w5, tr))
                          | (Inr u, w5) \<Rightarrow>
                              (Inr summary,
                               (w5, tr @ [Log INFO [PStr exchange, PStr ''/'', PStr symbol,
                                  PStr '' mover summary saved to '', PStr output_dir,
                                  PStr ''/'', PStr (symbol @ ''_summary.json'')]])))))))"
  unfolding why_it_moves_def Let_def
  by (simp add: io_bind_def call_def std_def emit_def io_return_def
        split: prod.splits sum.splits)































section \<open>The script in the concrete worlds\<close>

text \<open>The runs the witnesses and the counterexamples rest on, evaluated by the simplifier.\<close>

lemmas demo_defs =
  demo_env_def silent_env_def failing_env_def blank_env_def missing_env_def corrupt_env_def
  demo_articles_def bad_articles_def unlinked_articles_def demo_cache_def

lemmas extract_defs = extract_one_def has_text_def dict_get_def sentinel_def

lemma demo_articles_nonempty:
  "demo_articles \<noteq> []" "bad_articles \<noteq> []" "unlinked_articles \<noteq> []"
  by (simp_all add: demo_defs)

lemma extract_demo:
  "extract_all demo_env demo_articles 0 ((), tr) =
     (Inr ([[(''url'', PStr ''http://a''),
             (''full_article_text'', PStr ''Shares rose after earnings.'')]], 1),
      ((), tr @ [Call_extract_article_text (PStr ''http://a'')]))"
  by (simp add: extract_defs run_defs demo_defs)

lemma extract_silent:
  "extract_all silent_env demo_articles 0 ((), tr) =
     (Inr ([[(''url'', PStr ''http://a''),
             (''full_article_text'', PStr ''Shares rose after earnings.'')]], 1),
      ((), tr @ [Call_extract_article_text (PStr ''http://a'')]))"
  by (simp add: extract_defs run_defs demo_defs)

lemma extract_failing:
  "extract_all failing_env demo_articles 0 ((), tr) =
     (Inr ([[(''url'', PStr ''http://a''),
             (''full_article_text'', PStr ''Shares rose after earnings.'')]], 1),
      ((), tr @ [Call_extract_article_text (PStr ''http://a'')]))"
  by (simp add: extract_defs run_defs demo_defs)

lemma extract_blank:
  "extract_all blank_env demo_articles 0 ((), tr) =
     (Inr ([[(''url'', PStr ''http://a''), (''full_article_text'', PStr [])]], 1),
      ((), tr @ [Call_extract_article_text (PStr ''http://a'')]))"
  by (simp add: extract_defs run_defs demo_defs)

lemma extract_bad:
  "extract_all demo_env bad_articles 0 ((), tr) =
     (Inl (PyException ''ConnectionError''),
      ((), tr @ [Call_extract_article_text (PStr ''http://bad'')]))"
  by (simp add: extract_defs run_defs demo_defs)

lemma extract_unlinked:
  "extract_all demo_env unlinked_articles 0 ((), tr) = (Inr (unlinked_articles, 0), ((), tr))"
  by (simp add: extract_defs run_defs demo_defs)

lemma body_silent:
  "summarize_body silent_env ''AAPL'' ''NASDAQ'' articles ''gainer'' ''up'' ((), tr) =
     (Inr [(''symbol'', PStr ''AAPL''), (''exchange'', PStr ''NASDAQ''),
           (''type'', PStr ''gainer''), (''period'', PStr ''day''),
           (''summary'', PStr ''No valid article summaries could be generated.'')],
      ((), tr @ [Call_process_articles_batch articles ''AAPL'' ''AAPL'',
            Print [PStr (CHR 0x0A # replicate 80 CHR ''='')],
            Print [PStr ''PROCESSED TEXT AFTER NLP FOR '', PStr ''AAPL'', PStr '':''],
            Print [PStr (replicate 80 CHR ''='')],
            Log INFO [PStr ''No valid summaries generated for '', PStr ''AAPL'']]))"
  by (simp add: summarize_body_def run_defs demo_defs)

lemma body_failing:
  "summarize_body failing_env ''AAPL'' ''NASDAQ'' articles ''gainer'' ''up'' ((), tr) =
     (Inl (PyException ''RuntimeError''),
      ((), tr @ [Call_process_articles_batch articles ''AAPL'' ''AAPL'']))"
  by (simp add: summarize_body_def run_defs demo_defs)

lemma direction_gainer: "direction_of ''gainer'' = ''up''"
  by (simp add: direction_of_def)

lemma silent_run:
  "process_company_data silent_env ''AAPL'' ''NASDAQ'' demo_articles ''gainer'' ((), []) =
     (Inr [(''symbol'', PStr ''AAPL''), (''exchange'', PStr ''NASDAQ''),
           (''type'', PStr ''gainer''), (''period'', PStr ''day''),
           (''summary'', PStr ''No valid article summaries could be generated.'')],
      ((), [Log INFO [PStr ''Processing data for symbol: '', PStr ''AAPL'',
                      PStr '' - Classified as '', PStr ''gainer''],
            Call_extract_article_text (PStr ''http://a''),
            Call_process_articles_batch
              [[(''url'', PStr ''http://a''),
                (''full_article_text'', PStr ''Shares rose after earnings.'')]] ''AAPL'' ''AAPL'',
            Print [PStr (CHR 0x0A # replicate 80 CHR ''='')],
            Print [PStr ''PROCESSED TEXT AFTER NLP FOR '', PStr ''AAPL'', PStr '':''],
            Print [PStr (replicate 80 CHR ''='')],
            Log INFO [PStr ''No valid summaries generated for '', PStr ''AAPL'']]))"
  by (simp add: process_company_data_run extract_silent demo_articles_nonempty
        direction_gainer body_silent)

lemma failing_run:
  "process_company_data failing_env ''AAPL'' ''NASDAQ'' demo_articles ''gainer'' ((), []) =
     (Inr [(''symbol'', PStr ''AAPL''), (''exchange'', PStr ''NASDAQ''),
           (''type'', PStr ''gainer''), (''period'', PStr ''day''),
           (''summary'', PStr ''There was an error generating the summary.'')],
      ((), [Log INFO [PStr ''Processing data for symbol: '', PStr ''AAPL'',
                      PStr '' - Classified as '', PStr ''gainer''],
            Call_extract_article_text (PStr ''http://a''),
            Call_process_articles_batch
              [[(''url'', PStr ''http://a''),
                (''full_article_text'', PStr ''Shares rose after earnings.'')]] ''AAPL'' ''AAPL'',
            Log ERROR [PStr ''Error summarizing articles for '', PStr ''AAPL'', PStr '': '',
                       PStr ''RuntimeError'']]))"
  by (simp add: process_company_data_run extract_failing demo_articles_nonempty
        direction_gainer body_failing str_of_exn_def)

lemma bad_run:
  "process_company_data demo_env ''BAD'' ''NASDAQ'' bad_articles ''gainer'' ((), tr) =
     (Inl (PyException ''ConnectionError''),
      ((), tr @ [Log INFO [PStr ''Processing data for symbol: '', PStr ''BAD'',
                      PStr '' - Classified as '', PStr ''gainer''],
            Call_extract_article_text (PStr ''http://bad'')]))"
  by (simp add: process_company_data_run extract_bad demo_articles_nonempty)

lemma unlinked_run:
  "process_company_data demo_env ''AAPL'' ''NASDAQ'' unlinked_articles ''gainer'' ((), []) =
     (Inr [(''symbol'', PStr ''AAPL''), (''exchange'', PStr ''NASDAQ''),
           (''type'', PStr ''gainer''), (''period'', PStr ''day''),
           (''summary'', PStr ''There are no news currently affecting the stock price, fluctuations might be due to market conditions.'')],
      ((), [Log INFO [PStr ''Processing data for symbol: '', PStr ''AAPL'',
                      PStr '' - Classified as '', PStr ''gainer''],
            Log INFO [PStr ''All articles for '', PStr ''AAPL'',
                     PStr '' returned 'Full article text not found' - skipping summary'']]))"
  by (simp add: process_company_data_run extract_unlinked demo_articles_nonempty)

lemma demo_run:
  "process_company_data demo_env ''AAPL'' ''NASDAQ'' demo_articles ''gainer'' ((), tr) =
     (Inr [(''symbol'', PStr ''AAPL''), (''exchange'', PStr ''NASDAQ''),
           (''type'', PStr ''gainer''), (''summary'', PStr ''Up on earnings.'')],
      ((), tr @ [Log INFO [PStr ''Processing data for symbol: '', PStr ''AAPL'',
                      PStr '' - Classified as '', PStr ''gainer''],
            Call_extract_article_text (PStr ''http://a''),
            Call_process_articles_batch
              [[(''url'', PStr ''http://a''),
                (''full_article_text'', PStr ''Shares rose after earnings.'')]] ''AAPL'' ''AAPL'',
            Print [PStr (CHR 0x0A # replicate 80 CHR ''='')],
            Print [PStr ''PROCESSED TEXT AFTER NLP FOR '', PStr ''AAPL'', PStr '':''],
            Print [PStr (replicate 80 CHR ''='')],
            Print [PStr (CHR 0x0A # ''Article ''), PInt 1, PStr '':''],
            Print [PStr (replicate 40 CHR ''-'')],
            Print [PStr ''Shares rose.''],
            Print [PStr (replicate 40 CHR ''-'')],
            Call_summarize_article (PStr ''Shares rose.'') ''AAPL'' ''up'',
            Sleep 2,
            Call_summarize_articles [PStr ''Earnings beat.''] ''AAPL'']))"
  apply (simp add: process_company_data_run extract_demo demo_articles_nonempty)
  apply (simp add: summarize_body_def summarize_one_def direction_of_def dict_get_def run_defs
           demo_env_def)
  done

lemma isoformat_demo: "isoformat demo_clock = ''2024-03-09T14:05:07.001234+00:00''"
  by code_simp

lemma valid_demo_clock: "valid_datetime demo_clock"
  by (simp add: valid_datetime_def days_in_month_def demo_clock_def)

lemma news_demo:
  "get_news_articles demo_env ''AAPL'' ((), tr) =
     (Inr demo_articles, ((), tr @ [Call_load_json (Path ''STOCK_DB/news/AAPL_news.json'')]))"
  "get_news_articles demo_env ''BAD'' ((), tr) =
     (Inr bad_articles, ((), tr @ [Call_load_json (Path ''STOCK_DB/news/BAD_news.json'')]))"
  by (simp_all add: get_news_articles_def run_defs demo_defs)

lemma classify_demo: "classify_company (3 / 2) = ''gainer''"
  by (simp add: classify_company_def)

lemma why_demo:
  "why_it_moves demo_env ''AAPL'' ''NASDAQ'' (3 / 2) ((), tr) =
     (Inr [(''symbol'', PStr ''AAPL''), (''exchange'', PStr ''NASDAQ''),
           (''type'', PStr ''gainer''), (''summary'', PStr ''Up on earnings.''),
           (''daily_change_percentage'', PFloat (3 / 2)),
           (''date_generated'', PStr ''2024-03-09T14:05:07.001234+00:00'')],
      ((), tr @ [Call_load_json (Path ''STOCK_DB/news/AAPL_news.json''),
            Log INFO [PStr ''Processing data for symbol: '', PStr ''AAPL'',
                      PStr '' - Classified as '', PStr ''gainer''],
            Call_extract_article_text (PStr ''http://a''),
            Call_process_articles_batch
              [[(''url'', PStr ''http://a''),
                (''full_article_text'', PStr ''Shares rose after earnings.'')]] ''AAPL'' ''AAPL'',
            Print [PStr (CHR 0x0A # replicate 80 CHR ''='')],
            Print [PStr ''PROCESSED TEXT AFTER NLP FOR '', PStr ''AAPL'', PStr '':''],
            Print [PStr (replicate 80 CHR ''='')],
            Print [PStr (CHR 0x0A # ''Article ''), PInt 1, PStr '':''],
            Print [PStr (replicate 40 CHR ''-'')],
            Print [PStr ''Shares rose.''],
            Print [PStr (replicate 40 CHR ''-'')],
            Call_summarize_article (PStr ''Shares rose.'') ''AAPL'' ''up'',
            Sleep 2,
            Call_summarize_articles [PStr ''Earnings beat.''] ''AAPL'',
            Call_ensure_directory ''STOCK_DB/movers'',
            Call_save_json
              [(''symbol'', PStr ''AAPL''), (''exchange'', PStr ''NASDAQ''),
               (''type'', PStr ''gainer''), (''summary'', PStr ''Up on earnings.''),
               (''daily_change_percentage'', PFloat (3 / 2)),
               (''date_generated'', PStr ''2024-03-09T14:05:07.001234+00:00'')]
              (PathJoin (Path ''STOCK_DB/movers'') ''AAPL_summary.json''),
            Log INFO [PStr ''NASDAQ'', PStr ''/'', PStr ''AAPL'',
                      PStr '' mover summary saved to '', PStr ''STOCK_DB/movers'',
                      PStr ''/'', PStr ''AAPL_summary.json'']]))"
  apply (simp add: why_it_moves_run news_demo classify_demo demo_run)
  apply (simp add: demo_env_def isoformat_demo Let_def)
  done





section \<open>Properties\<close>

text \<open>
  Claim C3. For every real-valued change percentage \<open>c\<close>, \<open>classify_company\<close> returns
  \<open>gainer\<close> if \<open>c > 0\<close> and \<open>loser\<close> if \<open>c \<le> 0\<close>; in particular zero is a loser.
\<close>

theorem classify_company_sign:
  "(0 < c \<longrightarrow> classify_company c = ''gainer'')
   \<and> (c \<le> 0 \<longrightarrow> classify_company c = ''loser'')
   \<and> classify_company 0 = ''loser''"
  by (simp add: classify_company_def)

theorem classify_company_sign_witness:
  "classify_company (5 / 2) = ''gainer'' \<and> classify_company (- (5 / 2)) = ''loser''
   \<and> classify_company 0 = ''loser''"
  using classify_company_sign [of "5 / 2"] classify_company_sign [of "- (5 / 2)"]
  by simp

text \<open>
  Claim C4. For every symbol, exchange and classification, \<open>process_company_data\<close> on an
  empty article list returns the fixed neutral-market record, with the summary text below
  and \<open>period\<close> equal to \<open>day\<close>. It calls no collaborator: the world is left as it was and
  the trace grows by the two log records only.
\<close>

theorem process_company_data_no_articles:
  "process_company_data env symbol exchange [] classification s =
     (Inr [(''symbol'', PStr symbol), (''exchange'', PStr exchange),
           (''type'', PStr classification), (''period'', PStr ''day''),
           (''summary'', PStr ''There are no news currently affecting the stock price, fluctuations might be due to market conditions.'')],
      (fst s,
       snd s @ [Log INFO [PStr ''Processing data for symbol: '', PStr symbol,
                          PStr '' - Classified as '', PStr classification],
                Log INFO [PStr ''No news articles found for '', PStr symbol]]))"
  by (simp add: process_company_data_run)

text \<open>
  Claim C9. Whatever the input, a record that \<open>process_company_data\<close> returns (from any of
  its five return statements) has \<open>symbol\<close>, \<open>exchange\<close> and \<open>type\<close> equal to the symbol,
  exchange and classification arguments.
\<close>

theorem process_company_data_identity_fields:
  assumes "process_company_data env symbol exchange news_articles classification s = (Inr r, s')"
  shows "map_of r ''symbol'' = Some (PStr symbol)
         \<and> map_of r ''exchange'' = Some (PStr exchange)
         \<and> map_of r ''type'' = Some (PStr classification)"
  using process_company_data_shape [OF assms] by auto

theorem process_company_data_identity_fields_witness:
  "map_of (projr (fst (process_company_data demo_env ''AAPL'' ''NASDAQ'' demo_articles
                         ''gainer'' ((), [])))) ''symbol'' = Some (PStr ''AAPL'')
   \<and> map_of (projr (fst (process_company_data demo_env ''AAPL'' ''NASDAQ'' demo_articles
                         ''gainer'' ((), [])))) ''exchange'' = Some (PStr ''NASDAQ'')
   \<and> map_of (projr (fst (process_company_data failing_env ''AAPL'' ''NASDAQ'' demo_articles
                         ''gainer'' ((), [])))) ''type'' = Some (PStr ''gainer'')"
  using process_company_data_identity_fields [OF demo_run]
    process_company_data_identity_fields [OF failing_run]
  by (simp add: demo_run failing_run)

text \<open>
  Claim C1 says that \<open>period\<close> is absent from the "no valid summaries" record and from the
  "error generating summary" record. On the code both carry \<open>period\<close> equal to \<open>day\<close>: here
  is a run that returns each.
\<close>

theorem period_field_counterexample:
  "map_of (projr (fst (process_company_data silent_env ''AAPL'' ''NASDAQ'' demo_articles
                         ''gainer'' ((), [])))) ''summary''
     = Some (PStr ''No valid article summaries could be generated.'')
   \<and> map_of (projr (fst (process_company_data silent_env ''AAPL'' ''NASDAQ'' demo_articles
                         ''gainer'' ((), [])))) ''period''
     = Some (PStr ''day'')
   \<and> map_of (projr (fst (process_company_data failing_env ''AAPL'' ''NASDAQ'' demo_articles
                         ''gainer'' ((), [])))) ''summary''
     = Some (PStr ''There was an error generating the summary.'')
   \<and> map_of (projr (fst (process_company_data failing_env ''AAPL'' ''NASDAQ'' demo_articles
                         ''gainer'' ((), [])))) ''period''
     = Some (PStr ''day'')"
  by (simp add: silent_run failing_run)

text \<open>
  Claim C1, amended. Every record \<open>process_company_data\<close> returns is of one of two kinds.
  Either it is a fallback record: its summary is one of the three fixed texts (no news, no
  valid summaries, error), it carries \<open>period\<close> equal to \<open>day\<close>, and the run ends with a
  log record. Or it is the record of the aggregate summary: it has no \<open>period\<close> field,
  and the run ends with the call of \<open>summarize_articles\<close> whose result is its summary.
\<close>

theorem period_field_by_record:
  assumes "process_company_data env symbol exchange news_articles classification s = (Inr r, s')"
  shows "(map_of r ''period'' = Some (PStr ''day'')
          \<and> (map_of r ''summary'' = Some (PStr ''There are no news currently affecting the stock price, fluctuations might be due to market conditions.'')
             \<or> map_of r ''summary'' = Some (PStr ''No valid article summaries could be generated.'')
             \<or> map_of r ''summary'' = Some (PStr ''There was an error generating the summary.''))
          \<and> (\<exists>lvl msg. last (snd s') = Log lvl msg))
       \<or> (map_of r ''period'' = None
          \<and> (\<exists>explanation summaries.
                r = [(''symbol'', PStr symbol), (''exchange'', PStr exchange),
                     (''type'', PStr classification), (''summary'', explanation)]
                \<and> last (snd s') = Call_summarize_articles summaries symbol))"
  using process_company_data_shape [OF assms] by auto

theorem period_field_by_record_witness:
  "map_of (projr (fst (process_company_data demo_env ''AAPL'' ''NASDAQ'' demo_articles
                         ''gainer'' ((), [])))) ''period'' = None
   \<and> map_of (projr (fst (process_company_data demo_env ''AAPL'' ''NASDAQ'' unlinked_articles
                         ''gainer'' ((), [])))) ''period'' = Some (PStr ''day'')
   \<and> map_of (projr (fst (process_company_data silent_env ''AAPL'' ''NASDAQ'' demo_articles
                         ''gainer'' ((), [])))) ''period'' = Some (PStr ''day'')
   \<and> map_of (projr (fst (process_company_data failing_env ''AAPL'' ''NASDAQ'' demo_articles
                         ''gainer'' ((), [])))) ''period'' = Some (PStr ''day'')"
  using period_field_by_record [OF demo_run] period_field_by_record [OF unlinked_run]
    period_field_by_record [OF silent_run] period_field_by_record [OF failing_run]
  by (simp add: demo_run unlinked_run silent_run failing_run)

text \<open>
  Claim C2 says that an exception raised by the text extraction of an article is caught
  like the others. The loop over the articles stands before the \<^verbatim>\<open>try\<close> statement: when
  the extractor raises, \<open>process_company_data\<close> raises.
\<close>

theorem extraction_error_counterexample:
  "bad_articles \<noteq> []
   \<and> fst (process_company_data demo_env ''BAD'' ''NASDAQ'' bad_articles ''gainer'' ((), []))
       = Inl (PyException ''ConnectionError'')"
  by (simp add: bad_run demo_articles_nonempty)

text \<open>
  Claim C2, amended. For a non-empty article list: once the loop over the articles has
  run to its end, \<open>process_company_data\<close> returns a record, whatever the condenser and the
  summarizers do; an exception raised in the \<^verbatim>\<open>try\<close> body (by the condenser, by the
  summarizer of an article, by the aggregate summarizer, or by the statements between
  them) is logged and turned into the "error generating summary" record. An exception
  raised by the extractor in the loop before is not caught.
\<close>

theorem summarizing_errors_are_caught:
  fixes s :: "'w \<times> event list"
  assumes "news_articles \<noteq> []"
    and "s0 = (fst s, snd s @ [Log INFO [PStr ''Processing data for symbol: '', PStr symbol,
                                         PStr '' - Classified as '', PStr classification]])"
  shows "(\<forall>e s1. extract_all env news_articles 0 s0 = (Inl e, s1) \<longrightarrow>
            process_company_data env symbol exchange news_articles classification s = (Inl e, s1))
       \<and> (\<forall>articles n s1. extract_all env news_articles 0 s0 = (Inr (articles, n), s1) \<longrightarrow>
            (\<exists>r s'. process_company_data env symbol exchange news_articles classification s
                       = (Inr r, s'))
            \<and> (\<forall>e s2. n \<noteq> 0
                  \<and> summarize_body env symbol exchange articles classification
                       (direction_of classification) s1 = (Inl e, s2) \<longrightarrow>
                  process_company_data env symbol exchange news_articles classification s =
                    (Inr [(''symbol'', PStr symbol), (''exchange'', PStr exchange),
                          (''type'', PStr classification), (''period'', PStr ''day''),
                          (''summary'', PStr ''There was an error generating the summary.'')],
                     (fst s2, snd s2 @ [Log ERROR [PStr ''Error summarizing articles for '',
                          PStr symbol, PStr '': '', PStr (str_of_exn e)]]))))"
  using assms
  by (auto simp: process_company_data_run split: prod.splits sum.splits)

theorem summarizing_errors_are_caught_witness:
  "demo_articles \<noteq> []
   \<and> fst (extract_all failing_env demo_articles 0
            ((), [Log INFO [PStr ''Processing data for symbol: '', PStr ''AAPL'',
                            PStr '' - Classified as '', PStr ''gainer'']]))
       = Inr ([[(''url'', PStr ''http://a''),
                (''full_article_text'', PStr ''Shares rose after earnings.'')]], 1)
   \<and> fst (summarize_body failing_env ''AAPL'' ''NASDAQ''
            [[(''url'', PStr ''http://a''),
              (''full_article_text'', PStr ''Shares rose after earnings.'')]]
            ''gainer'' (direction_of ''gainer'')
            ((), [Log INFO [PStr ''Processing data for symbol: '', PStr ''AAPL'',
                            PStr '' - Classified as '', PStr ''gainer''],
                  Call_extract_article_text (PStr ''http://a'')]))
       = Inl (PyException ''RuntimeError'')
   \<and> fst (process_company_data failing_env ''AAPL'' ''NASDAQ'' demo_articles ''gainer'' ((), []))
       = Inr [(''symbol'', PStr ''AAPL''), (''exchange'', PStr ''NASDAQ''),
              (''type'', PStr ''gainer''), (''period'', PStr ''day''),
              (''summary'', PStr ''There was an error generating the summary.'')]"
  using summarizing_errors_are_caught
    [where env = failing_env and news_articles = demo_articles and s = "((), [])"
       and symbol = "''AAPL''" and exchange = "''NASDAQ''" and classification = "''gainer''",
     OF demo_articles_nonempty(1) refl]
  by (simp add: extract_failing body_failing direction_gainer demo_articles_nonempty)

text \<open>
  Claim C5 says that \<open>process_company_data\<close> returns the neutral-market record, and calls
  neither the condenser nor a summarizer, when the text of every article is the sentinel
  or empty. The code tests a cached text for being non-empty and not the sentinel, but a
  freshly extracted text only for not being the sentinel: an article whose page yields the
  empty string is counted as having text. On one such article the condenser is called and
  the record returned is the "no valid summaries" one.
\<close>

theorem blank_extraction_reaches_condenser:
  "process_company_data blank_env ''AAPL'' ''NASDAQ'' demo_articles ''gainer'' ((), []) =
     (Inr [(''symbol'', PStr ''AAPL''), (''exchange'', PStr ''NASDAQ''),
           (''type'', PStr ''gainer''), (''period'', PStr ''day''),
           (''summary'', PStr ''No valid article summaries could be generated.'')],
      ((), [Log INFO [PStr ''Processing data for symbol: '', PStr ''AAPL'',
                      PStr '' - Classified as '', PStr ''gainer''],
            Call_extract_article_text (PStr ''http://a''),
            Call_process_articles_batch
              [[(''url'', PStr ''http://a''), (''full_article_text'', PStr [])]] ''AAPL'' ''AAPL'',
            Print [PStr (CHR 0x0A # replicate 80 CHR ''='')],
            Print [PStr ''PROCESSED TEXT AFTER NLP FOR '', PStr ''AAPL'', PStr '':''],
            Print [PStr (replicate 80 CHR ''='')],
            Log INFO [PStr ''No valid summaries generated for '', PStr ''AAPL'']]))"
  apply (simp add: process_company_data_run extract_blank demo_articles_nonempty direction_gainer)
  apply (simp add: summarize_body_def run_defs demo_defs)
  done

text \<open>
  Claim C10. In the loop over the articles, an article without usable text whose \<open>url\<close>
  and \<open>link\<close> are both absent or empty (false in Python's sense) is skipped: the step of
  the loop returns the article and the counter as they were and leaves the world and the
  trace alone, so the extractor is not called. In a list, the loop runs as on the articles
  before it and then on the articles after it, with that article standing unchanged between.
\<close>

theorem extraction_skips_article_without_link:
  assumes "\<not> has_text article"
    and "\<forall>v. map_of article ''url'' = Some v \<longrightarrow> \<not> truthy v"
    and "\<forall>v. map_of article ''link'' = Some v \<longrightarrow> \<not> truthy v"
  shows "extract_one env article n s = (Inr (article, n), s)
       \<and> extract_all env (before @ article # after) n0 s0 =
           (case extract_all env before n0 s0 of
              (Inl e, s1) \<Rightarrow> (Inl e, s1)
            | (Inr (before', n1), s1) \<Rightarrow>
                (case extract_all env after n1 s1 of
                   (Inl e, s2) \<Rightarrow> (Inl e, s2)
                 | (Inr (after', n2), s2) \<Rightarrow> (Inr (before' @ article # after', n2), s2)))"
proof -
  have "\<not> truthy (dict_get article ''url'' (dict_get article ''link'' (PStr [])))"
    using assms(2,3) by (auto simp: dict_get_def split: option.splits)
  with assms(1) have one: "\<And>n s. extract_one env article n s = (Inr (article, n), s)"
    by (simp add: extract_one_def io_return_def)
  have "\<And>n s. extract_all env (article # after) n s =
          (case extract_all env after n s of
             (Inl e, s2) \<Rightarrow> (Inl e, s2)
           | (Inr (after', n2), s2) \<Rightarrow> (Inr (article # after', n2), s2))"
    by (simp add: one io_bind_def io_return_def split: prod.splits sum.splits)
  then show ?thesis
    by (simp add: one extract_all_append split: prod.splits sum.splits)
qed

theorem extraction_skips_article_without_link_witness:
  "\<not> has_text [(''title'', PStr ''Q4''), (''link'', PStr [])]
   \<and> map_of [(''title'', PStr ''Q4''), (''link'', PStr [])] ''url'' = None
   \<and> map_of [(''title'', PStr ''Q4''), (''link'', PStr [])] ''link'' = Some (PStr [])
   \<and> extract_all demo_env
        ([[(''title'', PStr ''Q3'')]] @ [(''title'', PStr ''Q4''), (''link'', PStr [])]
           # demo_articles) 0 ((), [])
      = (Inr ([[(''title'', PStr ''Q3'')], [(''title'', PStr ''Q4''), (''link'', PStr [])],
               [(''url'', PStr ''http://a''),
                (''full_article_text'', PStr ''Shares rose after earnings.'')]], 1),
         ((), [Call_extract_article_text (PStr ''http://a'')]))"
proof -
  have a: "\<not> has_text [(''title'', PStr ''Q4''), (''link'', PStr [])]"
    by (simp add: has_text_def)
  have b: "\<forall>v. map_of [(''title'', PStr ''Q4''), (''link'', PStr [])] ''url'' = Some v
             \<longrightarrow> \<not> truthy v"
    by simp
  have c: "\<forall>v. map_of [(''title'', PStr ''Q4''), (''link'', PStr [])] ''link'' = Some v
             \<longrightarrow> \<not> truthy v"
    by simp
  have d: "extract_all demo_env [[(''title'', PStr ''Q3'')]] 0 ((), []) =
             (Inr ([[(''title'', PStr ''Q3'')]], 0), ((), []))"
    by (simp add: extract_defs run_defs demo_defs)
  have eq:
    "extract_all demo_env
       ([[(''title'', PStr ''Q3'')]] @ [(''title'', PStr ''Q4''), (''link'', PStr [])]
          # demo_articles) 0 ((), []) =
     (case extract_all demo_env [[(''title'', PStr ''Q3'')]] 0 ((), []) of
        (Inl e, s1) \<Rightarrow> (Inl e, s1)
      | (Inr (before', n1), s1) \<Rightarrow>
          (case extract_all demo_env demo_articles n1 s1 of
             (Inl e, s2) \<Rightarrow> (Inl e, s2)
           | (Inr (after', n2), s2) \<Rightarrow>
               (Inr (before' @ [(''title'', PStr ''Q4''), (''link'', PStr [])] # after', n2),
                s2)))"
    using extraction_skips_article_without_link [OF a b c] by (rule conjunct2)
  show ?thesis
    apply (intro conjI)
       apply (rule a)
      apply simp
     apply simp
    apply (subst eq)
    apply (subst d)
    apply (simp add: extract_demo)
    done
qed



text \<open>
  Claim C7. For every symbol, exchange and change percentage \<open>c\<close>, whenever
  \<open>why_it_moves\<close> returns a record, that record is the one \<open>process_company_data\<close> built
  from the articles of \<open>get_news_articles\<close> and the class of \<open>c\<close>, updated with
  \<open>daily_change_percentage\<close> set to \<open>c\<close> and \<open>date_generated\<close> set to
  \<^verbatim>\<open>datetime.now(timezone.utc).isoformat()\<close>, where the date and time are the ones the
  clock gave after the record was built. The stamp reads back, as an ISO 8601 stamp with the
  offset \<^verbatim>\<open>+00:00\<close> and fields of an existing date and time of day, to exactly that
  clock reading. The directory is the one \<open>ensure_directory\<close> returned for
  \<^verbatim>\<open>STOCK_DB/movers\<close>, the same record was passed to \<open>save_json\<close> with the path
  \<^verbatim>\<open>Path(output_dir) / f"{symbol}_summary.json"\<close>, that call returned, and the final world
  and trace are the ones these calls leave. The clock gives dates and times within the
  ranges of Python's \<^verbatim>\<open>datetime\<close>. The record is returned whenever the extractor,
  \<open>ensure_directory\<close> and \<open>save_json\<close> return.
\<close>

theorem why_it_moves_stamps:
  assumes "\<forall>w. valid_datetime (fst (utc_now env w))"
  shows "(\<forall>r s'. why_it_moves env symbol exchange c s = (Inr r, s') \<longrightarrow>
            (\<exists>news_articles s1 built s2 now w3 output_dir w4 w5.
                get_news_articles env symbol s = (Inr news_articles, s1)
              \<and> process_company_data env symbol exchange news_articles (classify_company c) s1
                  = (Inr built, s2)
              \<and> utc_now env (fst s2) = (now, w3)
              \<and> ensure_directory env ''STOCK_DB/movers'' w3 = (Inr output_dir, w4)
              \<and> save_json env r (PathJoin (Path output_dir) (symbol @ ''_summary.json'')) w4
                  = (Inr (), w5)
              \<and> r = AList.update ''date_generated'' (PStr (isoformat now))
                      (AList.update ''daily_change_percentage'' (PFloat c) built)
              \<and> map_of r ''daily_change_percentage'' = Some (PFloat c)
              \<and> map_of r ''date_generated'' = Some (PStr (isoformat now))
              \<and> parse_iso8601_utc (isoformat now) = Some now
              \<and> is_iso8601_utc (isoformat now)
              \<and> s' = (w5, snd s2 @ [Call_ensure_directory ''STOCK_DB/movers'',
                                     Call_save_json r
                                       (PathJoin (Path output_dir) (symbol @ ''_summary.json'')),
                                     Log INFO [PStr exchange, PStr ''/'', PStr symbol,
                                       PStr '' mover summary saved to '', PStr output_dir,
                                       PStr ''/'', PStr (symbol @ ''_summary.json'')]])))
       \<and> ((\<forall>url w. \<exists>t w'. extract_article_text env url w = (Inr t, w'))
          \<and> (\<forall>d w. \<exists>x w'. ensure_directory env d w = (Inr x, w'))
          \<and> (\<forall>d p w. \<exists>w'. save_json env d p w = (Inr (), w'))
          \<longrightarrow> (\<exists>r s'. why_it_moves env symbol exchange c s = (Inr r, s')))"
proof (intro conjI allI impI)
  fix r s'
  assume run: "why_it_moves env symbol exchange c s = (Inr r, s')"
  obtain res1 s1 where a: "get_news_articles env symbol s = (res1, s1)"
    by (cases "get_news_articles env symbol s")
  from run a obtain news_articles where n: "res1 = Inr news_articles"
    by (cases res1) (simp_all add: why_it_moves_run)
  obtain res2 s2 where b:
    "process_company_data env symbol exchange news_articles (classify_company c) s1 = (res2, s2)"
    by (cases "process_company_data env symbol exchange news_articles (classify_company c) s1")
  from run a n b obtain built where bu: "res2 = Inr built"
    by (cases res2) (simp_all add: why_it_moves_run)
  obtain now w3 where t: "utc_now env (fst s2) = (now, w3)"
    by (cases "utc_now env (fst s2)")
  let ?r = "AList.update ''date_generated'' (PStr (isoformat now))
              (AList.update ''daily_change_percentage'' (PFloat c) built)"
  obtain res4 w4 where d: "ensure_directory env ''STOCK_DB/movers'' w3 = (res4, w4)"
    by (cases "ensure_directory env ''STOCK_DB/movers'' w3")
  from run a n b bu t d obtain output_dir where od: "res4 = Inr output_dir"
    by (cases res4) (simp_all add: why_it_moves_run Let_def)
  let ?p = "PathJoin (Path output_dir) (symbol @ ''_summary.json'')"
  obtain res5 w5 where sv: "save_json env ?r ?p w4 = (res5, w5)"
    by (cases "save_json env ?r ?p w4")
  from run a n b bu t d od sv have ok: "res5 = Inr ()"
    by (cases res5) (simp_all add: why_it_moves_run Let_def)
  from run a n b bu t d od sv ok have both:
    "(Inr ?r, (w5, snd s2 @ [Call_ensure_directory ''STOCK_DB/movers'',
                             Call_save_json ?r ?p,
                             Log INFO [PStr exchange, PStr ''/'', PStr symbol,
                                       PStr '' mover summary saved to '', PStr output_dir,
                                       PStr ''/'', PStr (symbol @ ''_summary.json'')]]))
     = (Inr r, s')"
    by (auto simp: why_it_moves_run Let_def)
  then have r: "r = ?r" by simp
  from both have s': "s' = (w5, snd s2 @ [Call_ensure_directory ''STOCK_DB/movers'',
                                 Call_save_json r ?p,
                                 Log INFO [PStr exchange, PStr ''/'', PStr symbol,
                                       PStr '' mover summary saved to '', PStr output_dir,
                                       PStr ''/'', PStr (symbol @ ''_summary.json'')]])"
    by auto
  from sv ok r have sv': "save_json env r ?p w4 = (Inr (), w5)" by simp
  from assms t have "valid_datetime now"
    by (metis fst_conv)
  then have parse: "parse_iso8601_utc (isoformat now) = Some now"
    by (rule parse_isoformat)
  have m1: "map_of ?r ''daily_change_percentage'' = Some (PFloat c)"
    and m2: "map_of ?r ''date_generated'' = Some (PStr (isoformat now))"
    by (simp_all add: AList.update_conv')
  show "\<exists>news_articles s1 built s2 now w3 output_dir w4 w5.
                get_news_articles env symbol s = (Inr news_articles, s1)
              \<and> process_company_data env symbol exchange news_articles (classify_company c) s1
                  = (Inr built, s2)
              \<and> utc_now env (fst s2) = (now, w3)
              \<and> ensure_directory env ''STOCK_DB/movers'' w3 = (Inr output_dir, w4)
              \<and> save_json env r (PathJoin (Path output_dir) (symbol @ ''_summary.json'')) w4
                  = (Inr (), w5)
              \<and> r = AList.update ''date_generated'' (PStr (isoformat now))
                      (AList.update ''daily_change_percentage'' (PFloat c) built)
              \<and> map_of r ''daily_change_percentage'' = Some (PFloat c)
              \<and> map_of r ''date_generated'' = Some (PStr (isoformat now))
              \<and> parse_iso8601_utc (isoformat now) = Some now
              \<and> is_iso8601_utc (isoformat now)
              \<and> s' = (w5, snd s2 @ [Call_ensure_directory ''STOCK_DB/movers'',
                                     Call_save_json r
                                       (PathJoin (Path output_dir) (symbol @ ''_summary.json'')),
                                     Log INFO [PStr exchange, PStr ''/'', PStr symbol,
                                       PStr '' mover summary saved to '', PStr output_dir,
                                       PStr ''/'', PStr (symbol @ ''_summary.json'')]])"
    apply (rule exI [of _ news_articles], rule exI [of _ s1], rule exI [of _ built])
    apply (rule exI [of _ s2], rule exI [of _ now], rule exI [of _ w3])
    apply (rule exI [of _ output_dir], rule exI [of _ w4], rule exI [of _ w5])
    using a n b bu t d od sv' s' parse m1 m2
    apply (simp add: is_iso8601_utc_def r [symmetric])
    done
next
  assume ok: "(\<forall>url w. \<exists>t w'. extract_article_text env url w = (Inr t, w'))
          \<and> (\<forall>d w. \<exists>x w'. ensure_directory env d w = (Inr x, w'))
          \<and> (\<forall>d p w. \<exists>w'. save_json env d p w = (Inr (), w'))"
  then have ok1: "\<forall>url w. \<exists>t w'. extract_article_text env url w = (Inr t, w')"
    and ok2: "\<forall>d w. \<exists>x w'. ensure_directory env d w = (Inr x, w')"
    and ok3: "\<forall>d p w. \<exists>w'. save_json env d p w = (Inr (), w')"
    by simp_all
  obtain news s1 where a: "get_news_articles env symbol s = (Inr news, s1)"
    using get_news_articles_returns by blast
  obtain built s2 where b:
    "process_company_data env symbol exchange news (classify_company c) s1 = (Inr built, s2)"
    using process_company_data_returns [OF ok1] by blast
  obtain now w3 where n: "utc_now env (fst s2) = (now, w3)"
    by (cases "utc_now env (fst s2)")
  obtain output_dir w4 where d: "ensure_directory env ''STOCK_DB/movers'' w3 = (Inr output_dir, w4)"
    using ok2 by blast
  obtain w5 where sv:
    "save_json env
       (AList.update ''date_generated'' (PStr (isoformat now))
          (AList.update ''daily_change_percentage'' (PFloat c) built))
       (PathJoin (Path output_dir) (symbol @ ''_summary.json'')) w4 = (Inr (), w5)"
    using ok3 by blast
  show "\<exists>r s'. why_it_moves env symbol exchange c s = (Inr r, s')"
    by (simp add: why_it_moves_run a b n d sv Let_def)
qed

theorem why_it_moves_stamps_witness:
  "valid_datetime demo_clock
   \<and> utc_now demo_env () = (demo_clock, ())
   \<and> fst (why_it_moves demo_env ''AAPL'' ''NASDAQ'' (3 / 2) ((), [])) =
       Inr [(''symbol'', PStr ''AAPL''), (''exchange'', PStr ''NASDAQ''),
            (''type'', PStr ''gainer''), (''summary'', PStr ''Up on earnings.''),
            (''daily_change_percentage'', PFloat (3 / 2)),
            (''date_generated'', PStr ''2024-03-09T14:05:07.001234+00:00'')]
   \<and> parse_iso8601_utc ''2024-03-09T14:05:07.001234+00:00'' = Some demo_clock
   \<and> is_iso8601_utc ''2024-03-09T14:05:07.001234+00:00''
   \<and> ensure_directory demo_env ''STOCK_DB/movers'' () = (Inr ''STOCK_DB/movers'', ())
   \<and> Call_save_json
         [(''symbol'', PStr ''AAPL''), (''exchange'', PStr ''NASDAQ''),
          (''type'', PStr ''gainer''), (''summary'', PStr ''Up on earnings.''),
          (''daily_change_percentage'', PFloat (3 / 2)),
          (''date_generated'', PStr ''2024-03-09T14:05:07.001234+00:00'')]
         (PathJoin (Path ''STOCK_DB/movers'') ''AAPL_summary.json'')
       \<in> set (snd (snd (why_it_moves demo_env ''AAPL'' ''NASDAQ'' (3 / 2) ((), []))))"
proof -
  have clock: "\<forall>w. valid_datetime (fst (utc_now demo_env w))"
    by (simp add: demo_env_def valid_demo_clock)
  have parse: "parse_iso8601_utc ''2024-03-09T14:05:07.001234+00:00'' = Some demo_clock"
    using parse_isoformat [OF valid_demo_clock] by (simp add: isoformat_demo)
  have world: "utc_now demo_env () = (demo_clock, ())"
    "ensure_directory demo_env ''STOCK_DB/movers'' () = (Inr ''STOCK_DB/movers'', ())"
    by (simp_all add: demo_env_def)
  show ?thesis
    using why_it_moves_stamps [OF clock, of "''AAPL''" "''NASDAQ''" "3 / 2" "((), [])"]
    by (simp add: why_demo valid_demo_clock parse world is_iso8601_utc_def)
qed



end
